theory Spec2Isabelle
  imports Complex_Main "HOL-Library.Multiset" "HOL-Library.Char_ord" "HOL-Library.List_Lexorder"
begin

section \<open>The table\<close>

text \<open>
  The dashboard is one script, \<^verbatim>\<open>app.py\<close>, working on a pandas DataFrame read from a
  CSV file. A float cell is a number or NaN (pandas' missing value). Numbers are exact
  rationals: the model adds and divides without the rounding of float64, and it has no
  infinities. It computes what the code computes on columns whose float64 sums are exact
  (\<open>float_exact\<close> below); the statements about sums are made for such columns. A text
  cell is a string or missing (\<open>None\<close>). The row type has the columns the modelled code
  reads; \<open>columns\<close> lists the names the frame has, and a row's field for a column that is
  not listed is never read.
\<close>

datatype pyfloat = NaN | Num rat

datatype error = KeyError | ValueError | TypeError

record row =
  Age :: "int option"
  Gender :: "string option"
  Income_Level :: "string option"
  Purchase_Channel :: "string option"
  Purchase_Category :: "string option"
  Product_Category :: "string option"
  Purchase_Amount :: pyfloat
  Purchase_Frequency :: pyfloat

record dataframe =
  columns :: "string list"
  rows :: "row list"

text \<open>\<^verbatim>\<open>df[name]\<close>: the column, or KeyError when the frame has no such column.\<close>

definition getitem :: "dataframe \<Rightarrow> string \<Rightarrow> (row \<Rightarrow> 'a) \<Rightarrow> error + 'a list" where
  "getitem d name field =
     (if name \<in> set (columns d) then Inr (map field (rows d)) else Inl KeyError)"

subsection \<open>Series reductions\<close>

text \<open>
  \<^verbatim>\<open>Series.sum()\<close> and \<^verbatim>\<open>Series.mean()\<close> skip NaN. The sum of nothing is 0; the mean
  of nothing is NaN (no exception is raised).
\<close>

fun dropna_float :: "pyfloat list \<Rightarrow> rat list" where
  "dropna_float [] = []"
| "dropna_float (NaN # xs) = dropna_float xs"
| "dropna_float (Num x # xs) = x # dropna_float xs"

definition series_sum :: "pyfloat list \<Rightarrow> rat" where
  "series_sum xs = sum_list (dropna_float xs)"

definition series_mean :: "pyfloat list \<Rightarrow> pyfloat" where
  "series_mean xs =
     (let ys = dropna_float xs
      in if ys = [] then NaN else Num (sum_list ys / of_nat (length ys)))"


text \<open>Python's \<^verbatim>\<open>a > b\<close> on floats: false as soon as one side is NaN.\<close>

fun float_gt :: "pyfloat \<Rightarrow> pyfloat \<Rightarrow> bool" where
  "float_gt (Num a) (Num b) = (b < a)"
| "float_gt _ _ = False"

section \<open>Recommendation\<close>

text \<open>
  The four messages of lines 274--281 of \<^verbatim>\<open>app.py\<close>, in the order of the
  \<^verbatim>\<open>if/elif/else\<close> chain. Each constructor stands for the literal text the source
  assigns to \<^verbatim>\<open>rec\<close>.
\<close>

datatype recommendation =
    High_value_frequent_shopper
  | Premium_purchases
  | Frequent_shopper
  | Seasonal_deals

definition rec :: "pyfloat \<Rightarrow> pyfloat \<Rightarrow> pyfloat \<Rightarrow> pyfloat \<Rightarrow> recommendation" where
  "rec avg_spending avg_frequency overall_avg_spending overall_avg_frequency =
     (if float_gt avg_spending overall_avg_spending \<and> float_gt avg_frequency overall_avg_frequency
        then High_value_frequent_shopper
      else if float_gt avg_spending overall_avg_spending then Premium_purchases
      else if float_gt avg_frequency overall_avg_frequency then Frequent_shopper
      else Seasonal_deals)"

section \<open>Loading: the purchase amount as a number\<close>














section \<open>Sidebar filters\<close>

text \<open>
  \<^verbatim>\<open>dropna()\<close> on a text column, and \<^verbatim>\<open>get_options\<close> (lines 78--81): the sorted
  distinct values of a column that are not missing, or the empty list for a column the
  frame does not have. Python orders strings by code point, as the lexicographic order on
  character lists does.
\<close>

fun dropna :: "'a option list \<Rightarrow> 'a list" where
  "dropna [] = []"
| "dropna (None # xs) = dropna xs"
| "dropna (Some v # xs) = v # dropna xs"

definition get_options :: "dataframe \<Rightarrow> string \<Rightarrow> (row \<Rightarrow> string option) \<Rightarrow> string list" where
  "get_options df col_name field =
     (if col_name \<in> set (columns df) then sort (remdups (dropna (map field (rows df)))) else [])"

text \<open>
  What the four multiselect widgets return: lists of option values. Each widget starts
  with all of its options selected.
\<close>

record selection =
  selected_channel :: "string list"
  selected_category :: "string list"
  selected_gender :: "string list"
  selected_income :: "string list"

definition default_selection :: "dataframe \<Rightarrow> selection" where
  "default_selection df =
     \<lparr>selected_channel = get_options df ''Purchase_Channel'' Purchase_Channel,
      selected_category = get_options df ''Purchase_Category'' Purchase_Category,
      selected_gender = get_options df ''Gender'' Gender,
      selected_income = get_options df ''Income_Level'' Income_Level\<rparr>"

text \<open>\<^verbatim>\<open>Series.isin(values)\<close> with a list of strings: a missing cell is in no such list.\<close>

definition isin :: "string option \<Rightarrow> string list \<Rightarrow> bool" where
  "isin cell vals = (case cell of None \<Rightarrow> False | Some v \<Rightarrow> v \<in> set vals)"

text \<open>
  One step of lines 114--121: \<^verbatim>\<open>if selected: filtered_df =
  filtered_df[filtered_df[col].isin(selected)]\<close>. An empty list is falsy, so the step is
  skipped; otherwise reading a column the frame lacks raises KeyError.
\<close>

definition filter_isin ::
  "string \<Rightarrow> (row \<Rightarrow> string option) \<Rightarrow> string list \<Rightarrow> dataframe \<Rightarrow> error + dataframe" where
  "filter_isin col_name field selected d =
     (if selected = [] then Inr d
      else if col_name \<in> set (columns d)
        then Inr (d\<lparr>rows := filter (\<lambda>r. isin (field r) selected) (rows d)\<rparr>)
      else Inl KeyError)"

definition and_then :: "error + 'a \<Rightarrow> ('a \<Rightarrow> error + 'b) \<Rightarrow> error + 'b" where
  "and_then m f = (case m of Inl e \<Rightarrow> Inl e | Inr x \<Rightarrow> f x)"

definition filtered_df :: "dataframe \<Rightarrow> selection \<Rightarrow> error + dataframe" where
  "filtered_df df sel =
     and_then (filter_isin ''Purchase_Channel'' Purchase_Channel (selected_channel sel) df)
       (\<lambda>d1. and_then (filter_isin ''Purchase_Category'' Purchase_Category (selected_category sel) d1)
         (\<lambda>d2. and_then (filter_isin ''Gender'' Gender (selected_gender sel) d2)
           (\<lambda>d3. filter_isin ''Income_Level'' Income_Level (selected_income sel) d3)))"

section \<open>Key metrics and revenue by category\<close>

text \<open>Lines 133--134: the sum and the mean of the amounts, or 0 without the column.\<close>

definition total_revenue :: "dataframe \<Rightarrow> pyfloat" where
  "total_revenue d =
     (if ''Purchase_Amount'' \<in> set (columns d) then Num (series_sum (map Purchase_Amount (rows d)))
      else Num 0)"

definition avg_purchase :: "dataframe \<Rightarrow> pyfloat" where
  "avg_purchase d =
     (if ''Purchase_Amount'' \<in> set (columns d) then series_mean (map Purchase_Amount (rows d))
      else Num 0)"

text \<open>
  \<^verbatim>\<open>groupby("Purchase_Category")["Purchase_Amount"].sum().reset_index()\<close>: one row per
  category value that occurs, in ascending order of the value; rows with a missing
  category are in no group (\<^verbatim>\<open>dropna=True\<close> is the default of \<^verbatim>\<open>groupby\<close>), and a
  group's sum skips NaN amounts.
\<close>

definition groupby_sum :: "row list \<Rightarrow> (string \<times> rat) list" where
  "groupby_sum rs =
     map (\<lambda>k. (k, series_sum (map Purchase_Amount (filter (\<lambda>r. Purchase_Category r = Some k) rs))))
       (sort (remdups (dropna (map Purchase_Category rs))))"

text \<open>
  \<^verbatim>\<open>sort_values("Purchase_Amount", ascending=False)\<close> names one key and no sorting
  algorithm, so pandas uses its default \<^verbatim>\<open>kind='quicksort'\<close>, which is not stable:
  which of the rows with equal amounts comes first is decided inside numpy (an insertion
  sort, a quicksort or a vectorised sorting network, by the length of the column and the
  processor), not by the script. The model does not choose among them. It is a relation
  that holds of the result of the call, whichever routine runs: the same rows, in
  descending order of the amount. What is proved of every related result holds of the
  script's result; that a result is related does not by itself say that the script
  returns it.
\<close>

definition sort_values_descending :: "(string \<times> rat) list \<Rightarrow> (string \<times> rat) list \<Rightarrow> bool" where
  "sort_values_descending xs ys = (mset ys = mset xs \<and> sorted_wrt (\<lambda>a b. snd b \<le> snd a) ys)"


section \<open>Personalized insights\<close>

text \<open>
  The four select boxes of lines 230--233 are built when the script runs, before the
  button exists. Each reads its column (KeyError without it) and offers
  \<^verbatim>\<open>sorted(df[col].unique())\<close>. Unlike \<^verbatim>\<open>get_options\<close>, these lines do not drop missing
  values: \<^verbatim>\<open>unique()\<close> keeps NaN, and \<^verbatim>\<open>sorted\<close> compares it with the strings, which
  raises TypeError when a text column has both a missing cell and a text cell. A column
  of missing cells only offers NaN alone. In the numeric \<^verbatim>\<open>Age\<close> column NaN compares
  with numbers without raising; the options of that box are not modelled. A box that
  offers NaN alone, or nothing (a table without rows), returns an input that is equal
  to no cell; a profile value that does not occur in the column stands for it.
\<close>

record profile =
  age_input :: int
  income_input :: string
  channel_input :: string
  category_input :: string

definition selectbox_options ::
  "dataframe \<Rightarrow> string \<Rightarrow> (row \<Rightarrow> string option) \<Rightarrow> error + string option list" where
  "selectbox_options df col_name field =
     (case getitem df col_name field of
        Inl e \<Rightarrow> Inl e
      | Inr cells \<Rightarrow>
          if None \<in> set cells \<and> dropna cells \<noteq> [] then Inl TypeError
          else if None \<in> set cells then Inr [None]
          else Inr (map Some (sort (remdups (dropna cells)))))"

text \<open>The option lists of the income, channel and category boxes, or the first error.\<close>

definition selectboxes ::
  "dataframe \<Rightarrow> error + (string option list \<times> string option list \<times> string option list)" where
  "selectboxes df =
     and_then (getitem df ''Age'' Age) (\<lambda>ages.
     and_then (selectbox_options df ''Income_Level'' Income_Level) (\<lambda>incomes.
     and_then (selectbox_options df ''Purchase_Channel'' Purchase_Channel) (\<lambda>channels.
     and_then (selectbox_options df ''Product_Category'' Product_Category) (\<lambda>categories.
       Inr (incomes, channels, categories)))))"

definition selectboxes_ok :: "dataframe \<Rightarrow> bool" where
  "selectboxes_ok df = (case selectboxes df of Inl e \<Rightarrow> False | Inr opts \<Rightarrow> True)"

text \<open>
  Lines 236--244. A comparison of a missing cell with a value is false. The only message
  of this part is the warning of line 243.
\<close>

datatype message = No_exact_match_warning

definition exact_match :: "profile \<Rightarrow> row \<Rightarrow> bool" where
  "exact_match p r =
     (Age r = Some (age_input p) \<and> Income_Level r = Some (income_input p)
      \<and> Purchase_Channel r = Some (channel_input p))"

definition income_match :: "profile \<Rightarrow> row \<Rightarrow> bool" where
  "income_match p r = (Income_Level r = Some (income_input p))"

definition user_segment :: "dataframe \<Rightarrow> profile \<Rightarrow> message list \<times> dataframe" where
  "user_segment df p =
     (let seg = filter (exact_match p) (rows df)
      in if seg = [] then ([No_exact_match_warning], df\<lparr>rows := filter (income_match p) (rows df)\<rparr>)
         else ([], df\<lparr>rows := seg\<rparr>))"

text \<open>
  \<^verbatim>\<open>Series.mode()\<close>: the values that occur most often among the cells that are not
  missing, sorted ascending (pandas sorts the modes it returns). \<^verbatim>\<open>[0]\<close> on the result
  is its first entry, and KeyError when there is none.
\<close>

fun max_list :: "nat list \<Rightarrow> nat" where
  "max_list [] = 0"
| "max_list (n # ns) = max n (max_list ns)"

definition series_mode :: "string option list \<Rightarrow> string list" where
  "series_mode xs =
     (let vs = dropna xs;
          top = max_list (map (count_list vs) vs)
      in sort (remdups (filter (\<lambda>v. count_list vs v = top) vs)))"

definition getitem0 :: "'a list \<Rightarrow> error + 'a" where
  "getitem0 xs = (case xs of [] \<Rightarrow> Inl KeyError | x # _ \<Rightarrow> Inr x)"

text \<open>
  Lines 246--281: the three statistics of the segment, the two baselines over the whole
  frame, and the recommendation. The values shown to the user (the markdown text, the
  comparison chart, the recommendation and the downloadable report) are built from the
  fields of \<open>insights\<close>; their formatting as text is not modelled. An exception ends the
  run: the warnings issued before it stay on the page, and no insight is shown. When a
  select box cannot be built the script has stopped before the button, so there is no
  warning either.
\<close>

record insights =
  avg_spending :: pyfloat
  top_category :: string
  avg_frequency :: pyfloat
  overall_avg_spending :: pyfloat
  overall_avg_frequency :: pyfloat
  recommendation :: recommendation

record outcome =
  warnings :: "message list"
  result :: "error + insights"

definition segment_insights :: "dataframe \<Rightarrow> dataframe \<Rightarrow> error + insights" where
  "segment_insights df seg =
     and_then (getitem seg ''Purchase_Amount'' Purchase_Amount) (\<lambda>amounts.
     and_then (getitem seg ''Product_Category'' Product_Category) (\<lambda>cats.
     and_then (getitem0 (series_mode cats)) (\<lambda>top.
     and_then (getitem seg ''Purchase_Frequency'' Purchase_Frequency) (\<lambda>freqs.
     and_then (getitem df ''Purchase_Amount'' Purchase_Amount) (\<lambda>all_amounts.
     and_then (getitem df ''Purchase_Frequency'' Purchase_Frequency) (\<lambda>all_freqs.
       Inr \<lparr>avg_spending = series_mean amounts,
            top_category = top,
            avg_frequency = series_mean freqs,
            overall_avg_spending = series_mean all_amounts,
            overall_avg_frequency = series_mean all_freqs,
            recommendation =
              rec (series_mean amounts) (series_mean freqs)
                (series_mean all_amounts) (series_mean all_freqs)\<rparr>))))))"

definition get_my_insights :: "dataframe \<Rightarrow> profile \<Rightarrow> outcome" where
  "get_my_insights df p =
     (case selectboxes df of
        Inl e \<Rightarrow> \<lparr>warnings = [], result = Inl e\<rparr>
      | Inr opts \<Rightarrow>
          (case user_segment df p of
             (ws, seg) \<Rightarrow> \<lparr>warnings = ws, result = segment_insights df seg\<rparr>))"

section \<open>Statements of the specification and example tables\<close>

text \<open>
  The specification's filter rule, in its own words: a row is retained when, for each
  attribute whose allowed set is not empty, the row's value is in that set.
\<close>

definition spec_retained :: "selection \<Rightarrow> row \<Rightarrow> bool" where
  "spec_retained sel r =
     ((selected_channel sel \<noteq> [] \<longrightarrow> isin (Purchase_Channel r) (selected_channel sel))
      \<and> (selected_category sel \<noteq> [] \<longrightarrow> isin (Purchase_Category r) (selected_category sel))
      \<and> (selected_gender sel \<noteq> [] \<longrightarrow> isin (Gender r) (selected_gender sel))
      \<and> (selected_income sel \<noteq> [] \<longrightarrow> isin (Income_Level r) (selected_income sel)))"

text \<open>
  A multiselect widget returns some of its options, and a column the frame lacks has no
  options: whenever a selection is not empty, its column exists.
\<close>

definition selection_readable :: "dataframe \<Rightarrow> selection \<Rightarrow> bool" where
  "selection_readable df sel =
     ((selected_channel sel \<noteq> [] \<longrightarrow> ''Purchase_Channel'' \<in> set (columns df))
      \<and> (selected_category sel \<noteq> [] \<longrightarrow> ''Purchase_Category'' \<in> set (columns df))
      \<and> (selected_gender sel \<noteq> [] \<longrightarrow> ''Gender'' \<in> set (columns df))
      \<and> (selected_income sel \<noteq> [] \<longrightarrow> ''Income_Level'' \<in> set (columns df)))"

text \<open>The four filterable columns, each with the field that reads it.\<close>

definition filter_columns :: "(string \<times> (row \<Rightarrow> string option)) list" where
  "filter_columns =
     [(''Purchase_Channel'', Purchase_Channel), (''Purchase_Category'', Purchase_Category),
      (''Gender'', Gender), (''Income_Level'', Income_Level)]"

text \<open>
  The specification's tie rule for the revenue table: of two rows with equal sums, the
  one with the smaller label comes first.
\<close>

definition spec_ties_ascending :: "(string \<times> rat) list \<Rightarrow> bool" where
  "spec_ties_ascending out = sorted_wrt (\<lambda>a b. snd a = snd b \<longrightarrow> fst a \<le> fst b) out"

text \<open>Example tables.\<close>

definition all_columns :: "string list" where
  "all_columns =
     [''Age'', ''Gender'', ''Income_Level'', ''Purchase_Channel'', ''Purchase_Category'',
      ''Product_Category'', ''Purchase_Amount'', ''Purchase_Frequency'']"

definition blank_row :: row where
  "blank_row =
     \<lparr>Age = None, Gender = None, Income_Level = None, Purchase_Channel = None,
      Purchase_Category = None, Product_Category = None, Purchase_Amount = NaN,
      Purchase_Frequency = NaN\<rparr>"

definition purchase :: "string \<Rightarrow> string \<Rightarrow> rat \<Rightarrow> row" where
  "purchase channel category amount =
     blank_row\<lparr>Purchase_Channel := Some channel, Purchase_Category := Some category,
       Purchase_Amount := Num amount\<rparr>"

definition shopper :: "int \<Rightarrow> string \<Rightarrow> string \<Rightarrow> string \<Rightarrow> rat \<Rightarrow> rat \<Rightarrow> row" where
  "shopper age income channel product amount frequency =
     \<lparr>Age = Some age, Gender = None, Income_Level = Some income, Purchase_Channel = Some channel,
      Purchase_Category = None, Product_Category = Some product, Purchase_Amount = Num amount,
      Purchase_Frequency = Num frequency\<rparr>"

definition two_purchases :: dataframe where
  "two_purchases =
     \<lparr>columns = all_columns,
      rows = [purchase ''Online'' ''Electronics'' 100, purchase ''Store'' ''Apparel'' 50]\<rparr>"

definition online_only :: selection where
  "online_only =
     \<lparr>selected_channel = [''Online''], selected_category = [], selected_gender = [],
      selected_income = []\<rparr>"

definition nothing_selected :: selection where
  "nothing_selected =
     \<lparr>selected_channel = [], selected_category = [], selected_gender = [], selected_income = []\<rparr>"

definition gender_partly_missing :: dataframe where
  "gender_partly_missing =
     \<lparr>columns = all_columns,
      rows = [(purchase ''Online'' ''Electronics'' 100)\<lparr>Gender := Some ''Female''\<rparr>,
              purchase ''Store'' ''Apparel'' 50]\<rparr>"

definition gender_all_missing :: dataframe where
  "gender_all_missing =
     \<lparr>columns = all_columns, rows = [purchase ''Online'' ''Electronics'' 100]\<rparr>"

definition tied_categories :: dataframe where
  "tied_categories =
     \<lparr>columns = all_columns, rows = [purchase ''Online'' ''A'' 1, purchase ''Online'' ''B'' 1]\<rparr>"

definition uncategorised :: dataframe where
  "uncategorised = \<lparr>columns = all_columns, rows = [blank_row\<lparr>Purchase_Amount := Num 100\<rparr>]\<rparr>"

definition empty_table :: dataframe where
  "empty_table = \<lparr>columns = all_columns, rows = []\<rparr>"

definition high_online_30 :: profile where
  "high_online_30 =
     \<lparr>age_input = 30, income_input = ''High'', channel_input = ''Online'',
      category_input = ''Electronics''\<rparr>"

definition four_shoppers :: dataframe where
  "four_shoppers =
     \<lparr>columns = all_columns,
      rows = [shopper 25 ''High'' ''Online'' ''Electronics'' 100 2,
              shopper 30 ''High'' ''Store'' ''Apparel'' 50 4,
              shopper 40 ''High'' ''Online'' ''Electronics'' 30 6,
              shopper 30 ''Low'' ''Online'' ''Apparel'' 20 1]\<rparr>"

definition two_tied_shoppers :: dataframe where
  "two_tied_shoppers =
     \<lparr>columns = all_columns,
      rows = [shopper 30 ''High'' ''Online'' ''Books'' 10 1,
              shopper 30 ''High'' ''Online'' ''Apparel'' 20 2]\<rparr>"

definition no_frequency_column :: dataframe where
  "no_frequency_column =
     \<lparr>columns =
        [''Age'', ''Gender'', ''Income_Level'', ''Purchase_Channel'', ''Purchase_Category'',
         ''Product_Category'', ''Purchase_Amount''],
      rows = rows four_shoppers\<rparr>"

definition two_tied_pairs :: dataframe where
  "two_tied_pairs =
     \<lparr>columns = all_columns,
      rows = [purchase ''Online'' ''a'' 1, purchase ''Online'' ''b'' 1,
              purchase ''Store'' ''c'' 2, purchase ''Store'' ''d'' 2]\<rparr>"

definition medium_online_30 :: profile where
  "medium_online_30 =
     \<lparr>age_input = 30, income_input = ''Medium'', channel_input = ''Online'',
      category_input = ''Electronics''\<rparr>"

text \<open>
  For comparison with \<open>sort_values_descending\<close>: what pandas computes when the sorting
  algorithm is a stable one (\<^verbatim>\<open>kind='stable'\<close>, which the script does not ask for).
  For a descending order pandas reverses the rows, sorts them ascending and reverses the
  result.
\<close>

definition sort_values_descending_stable :: "(string \<times> rat) list \<Rightarrow> (string \<times> rat) list" where
  "sort_values_descending_stable xs = rev (sort_key snd (rev xs))"

section \<open>Properties\<close>

lemmas fixture_defs =
  all_columns_def blank_row_def purchase_def shopper_def two_purchases_def online_only_def
  nothing_selected_def gender_partly_missing_def gender_all_missing_def tied_categories_def
  uncategorised_def empty_table_def high_online_30_def medium_online_30_def four_shoppers_def
  two_tied_shoppers_def no_frequency_column_def two_tied_pairs_def

lemmas insights_defs =
  get_my_insights_def selectboxes_ok_def selectboxes_def selectbox_options_def user_segment_def
  segment_insights_def and_then_def
  getitem_def getitem0_def series_mode_def exact_match_def income_match_def series_mean_def
  rec_def


subsection \<open>Filters\<close>

lemma filter_isin_Inr:
  "selected \<noteq> [] \<longrightarrow> col_name \<in> set (columns d) \<Longrightarrow>
   filter_isin col_name field selected d =
     Inr (d\<lparr>rows := filter (\<lambda>r. selected \<noteq> [] \<longrightarrow> isin (field r) selected) (rows d)\<rparr>)"
  by (cases "selected = []") (simp_all add: filter_isin_def)

lemma filtered_df_rows:
  assumes "selection_readable df sel"
  shows "filtered_df df sel = Inr (df\<lparr>rows := filter (spec_retained sel) (rows df)\<rparr>)"
proof -
  let ?d1 = "df\<lparr>rows := filter (\<lambda>r. selected_channel sel \<noteq> [] \<longrightarrow> isin (Purchase_Channel r) (selected_channel sel)) (rows df)\<rparr>"
  let ?d2 = "?d1\<lparr>rows := filter (\<lambda>r. selected_category sel \<noteq> [] \<longrightarrow> isin (Purchase_Category r) (selected_category sel)) (rows ?d1)\<rparr>"
  let ?d3 = "?d2\<lparr>rows := filter (\<lambda>r. selected_gender sel \<noteq> [] \<longrightarrow> isin (Gender r) (selected_gender sel)) (rows ?d2)\<rparr>"
  let ?d4 = "?d3\<lparr>rows := filter (\<lambda>r. selected_income sel \<noteq> [] \<longrightarrow> isin (Income_Level r) (selected_income sel)) (rows ?d3)\<rparr>"
  from assms have s1: "filter_isin ''Purchase_Channel'' Purchase_Channel (selected_channel sel) df = Inr ?d1"
    by (intro filter_isin_Inr) (simp add: selection_readable_def)
  from assms have s2: "filter_isin ''Purchase_Category'' Purchase_Category (selected_category sel) ?d1 = Inr ?d2"
    by (intro filter_isin_Inr) (simp add: selection_readable_def)
  from assms have s3: "filter_isin ''Gender'' Gender (selected_gender sel) ?d2 = Inr ?d3"
    by (intro filter_isin_Inr) (simp add: selection_readable_def)
  from assms have s4: "filter_isin ''Income_Level'' Income_Level (selected_income sel) ?d3 = Inr ?d4"
    by (intro filter_isin_Inr) (simp add: selection_readable_def)
  have "filtered_df df sel = Inr ?d4"
    unfolding filtered_df_def and_then_def s1 sum.case s2 s3 s4 ..
  also have "?d4 = df\<lparr>rows := filter (spec_retained sel) (rows df)\<rparr>"
    by (simp add: spec_retained_def [abs_def])
  finally show ?thesis .
qed


lemma in_set_dropna: "v \<in> set (dropna xs) \<longleftrightarrow> Some v \<in> set xs"
  by (induction xs rule: dropna.induct) auto

lemma in_set_dropna_map: "v \<in> set (dropna (map f xs)) \<longleftrightarrow> (\<exists>x\<in>set xs. f x = Some v)"
  by (auto simp: in_set_dropna image_iff) metis

lemma set_get_options:
  "set (get_options df name field) =
     (if name \<in> set (columns df) then {v. \<exists>r\<in>set (rows df). field r = Some v} else {})"
  by (auto simp: get_options_def in_set_dropna_map)

lemma default_selection_readable: "selection_readable df (default_selection df)"
  by (auto simp: selection_readable_def default_selection_def get_options_def)

lemma default_drops:
  assumes "(name, field) \<in> set filter_columns"
    and "name \<in> set (columns df)"
    and "field r = None"
    and "\<exists>r'\<in>set (rows df). field r' \<noteq> None"
  shows "get_options df name field \<noteq> [] \<and> \<not> spec_retained (default_selection df) r"
proof -
  from assms(2,4) have "set (get_options df name field) \<noteq> {}"
    by (auto simp: set_get_options)
  then have ne: "get_options df name field \<noteq> []" by auto
  with assms(1,3) show ?thesis
    by (auto simp: filter_columns_def spec_retained_def default_selection_def isin_def)
qed

subsection \<open>Sums by category\<close>








lemma stable_is_sort_values_descending:
  "sort_values_descending xs (sort_values_descending_stable xs)"
proof -
  have "sorted (map snd (sort_key snd (rev xs)))" by (rule sorted_sort_key)
  then have "sorted_wrt (\<lambda>a b. snd a \<le> snd b) (sort_key snd (rev xs))"
    by (simp add: sorted_map)
  then have "sorted_wrt (\<lambda>a b. snd b \<le> snd a) (rev (sort_key snd (rev xs)))"
    by (simp add: sorted_wrt_rev)
  then show ?thesis
    by (simp add: sort_values_descending_def sort_values_descending_stable_def)
qed

lemma stable_keeps_ties:
  "filter (\<lambda>y. snd y = k) (sort_values_descending_stable xs) = filter (\<lambda>y. snd y = k) xs"
proof -
  have "filter (\<lambda>y. snd y = k) (sort_key snd (rev xs)) = filter (\<lambda>y. snd y = k) (rev xs)"
    by (rule sort_key_stable)
  then show ?thesis
    by (simp add: sort_values_descending_stable_def rev_filter [symmetric])
qed

lemma sorted_wrt_ties:
  "(\<And>k. sorted_wrt Q (filter (\<lambda>y. snd y = k) ys)) \<Longrightarrow>
   sorted_wrt (\<lambda>a b. snd a = snd b \<longrightarrow> Q a b) ys"
proof (induction ys)
  case Nil
  then show ?case by simp
next
  case (Cons y ys)
  have tl: "sorted_wrt Q (filter (\<lambda>z. snd z = k) ys)" for k
    using Cons.prems [of k] by (cases "snd y = k") simp_all
  have hd: "Q y z" if "z \<in> set ys" "snd y = snd z" for z
    using Cons.prems [of "snd y"] that by (cases z) auto
  from Cons.IH [OF tl] hd show ?case by simp
qed

lemma groupby_sum_labels_ascending:
  "sorted_wrt (\<lambda>a b. fst a \<le> fst b) (groupby_sum rs)"
proof -
  have "sorted (map fst (groupby_sum rs))"
    by (simp add: groupby_sum_def comp_def)
  then show ?thesis by (simp add: sorted_map)
qed

lemma stable_ties_ascending:
  "spec_ties_ascending (sort_values_descending_stable (groupby_sum rs))"
  unfolding spec_ties_ascending_def
proof (rule sorted_wrt_ties)
  fix k
  from groupby_sum_labels_ascending [of rs]
  have "sorted_wrt (\<lambda>a b. fst a \<le> fst b) (filter (\<lambda>y. snd y = k) (groupby_sum rs))"
    by (rule sorted_wrt_filter)
  then show "sorted_wrt (\<lambda>a b. fst a \<le> fst b)
      (filter (\<lambda>y. snd y = k) (sort_values_descending_stable (groupby_sum rs)))"
    by (simp add: stable_keeps_ties)
qed

subsection \<open>Mode and insights\<close>

lemma count_list_dropna: "count_list (dropna xs) v = count_list xs (Some v)"
  by (induction xs rule: dropna.induct) auto

lemma max_list_ge: "n \<in> set ns \<Longrightarrow> n \<le> max_list ns"
  by (induction ns) auto

lemma max_list_in: "ns \<noteq> [] \<Longrightarrow> max_list ns \<in> set ns"
proof (induction ns)
  case Nil
  then show ?case by simp
next
  case (Cons n ns)
  then show ?case by (cases "ns = []") (auto simp: max_def)
qed

lemma set_series_mode:
  "set (series_mode xs) =
     {v. Some v \<in> set xs \<and> (\<forall>w. count_list xs (Some w) \<le> count_list xs (Some v))}"
proof -
  let ?vs = "dropna xs"
  let ?top = "max_list (map (count_list ?vs) ?vs)"
  have a: "count_list ?vs v = ?top \<longleftrightarrow> (\<forall>w. count_list ?vs w \<le> count_list ?vs v)"
    if "v \<in> set ?vs" for v
  proof
    assume eq: "count_list ?vs v = ?top"
    show "\<forall>w. count_list ?vs w \<le> count_list ?vs v"
    proof
      fix w
      show "count_list ?vs w \<le> count_list ?vs v"
      proof (cases "w \<in> set ?vs")
        case True
        then have "count_list ?vs w \<in> set (map (count_list ?vs) ?vs)" by simp
        from max_list_ge [OF this] eq show ?thesis by simp
      next
        case False
        then show ?thesis by (simp add: count_list_0_iff)
      qed
    qed
  next
    assume all: "\<forall>w. count_list ?vs w \<le> count_list ?vs v"
    from that have "map (count_list ?vs) ?vs \<noteq> []" by auto
    from max_list_in [OF this] obtain w where "?top = count_list ?vs w" by auto
    with all have "?top \<le> count_list ?vs v" by simp
    moreover from that have "count_list ?vs v \<le> ?top" by (intro max_list_ge) simp
    ultimately show "count_list ?vs v = ?top" by simp
  qed
  have "set (series_mode xs) = {v \<in> set ?vs. count_list ?vs v = ?top}"
    by (simp add: series_mode_def Let_def)
  also have "\<dots> = {v \<in> set ?vs. \<forall>w. count_list ?vs w \<le> count_list ?vs v}"
    using a by blast
  finally show ?thesis
    by (simp add: in_set_dropna count_list_dropna)
qed

lemma sorted_series_mode: "sorted (series_mode xs)"
  by (simp add: series_mode_def Let_def)

lemma series_mode_Nil_iff: "series_mode xs = [] \<longleftrightarrow> dropna xs = []"
proof
  assume "series_mode xs = []"
  show "dropna xs = []"
  proof (rule ccontr)
    let ?vs = "dropna xs"
    assume ne: "?vs \<noteq> []"
    then have "map (count_list ?vs) ?vs \<noteq> []" by simp
    from max_list_in [OF this]
    obtain v where "v \<in> set ?vs" "count_list ?vs v = max_list (map (count_list ?vs) ?vs)"
      by auto
    then have "v \<in> set (series_mode xs)" by (simp add: series_mode_def Let_def)
    with \<open>series_mode xs = []\<close> show False by simp
  qed
next
  assume "dropna xs = []"
  then show "series_mode xs = []" by (simp add: series_mode_def)
qed

lemma getitem0_Inr:
  "getitem0 xs = Inr x \<longleftrightarrow> (\<exists>t. xs = x # t)"
  by (cases xs) (auto simp: getitem0_def)

lemma getitem0_mode:
  assumes "getitem0 (series_mode xs) = Inr c"
  shows "Some c \<in> set xs"
    and "count_list xs (Some v) \<le> count_list xs (Some c)"
    and "count_list xs (Some v) = count_list xs (Some c) \<Longrightarrow> c \<le> v"
proof -
  from assms obtain t where m: "series_mode xs = c # t" by (auto simp: getitem0_Inr)
  then have "c \<in> set (series_mode xs)" by simp
  then have c: "Some c \<in> set xs" "\<And>w. count_list xs (Some w) \<le> count_list xs (Some c)"
    by (simp_all add: set_series_mode)
  show "Some c \<in> set xs" by (rule c)
  show "count_list xs (Some v) \<le> count_list xs (Some c)" by (rule c)
  assume tie: "count_list xs (Some v) = count_list xs (Some c)"
  from c(1) have "count_list xs (Some c) \<noteq> 0" by (simp add: count_list_0_iff)
  with tie have "count_list xs (Some v) \<noteq> 0" by simp
  then have "Some v \<in> set xs" by (simp add: count_list_0_iff)
  with tie c have "v \<in> set (series_mode xs)" by (simp add: set_series_mode)
  with m sorted_series_mode [of xs] show "c \<le> v" by auto
qed

lemma columns_user_segment: "columns (snd (user_segment df p)) = columns df"
  by (simp add: user_segment_def Let_def)

lemma segment_insights_Inr:
  assumes "segment_insights df seg = Inr r"
  shows "avg_spending r = series_mean (map Purchase_Amount (rows seg))"
    and "getitem0 (series_mode (map Product_Category (rows seg))) = Inr (top_category r)"
    and "avg_frequency r = series_mean (map Purchase_Frequency (rows seg))"
    and "overall_avg_spending r = series_mean (map Purchase_Amount (rows df))"
    and "overall_avg_frequency r = series_mean (map Purchase_Frequency (rows df))"
    and "recommendation r = rec (avg_spending r) (avg_frequency r)
           (overall_avg_spending r) (overall_avg_frequency r)"
  using assms
  by (auto simp: segment_insights_def and_then_def getitem_def split: sum.splits if_splits)

lemma getitem0_mode_cases:
  "getitem0 (series_mode xs) = (if dropna xs = [] then Inl KeyError else Inr (hd (series_mode xs)))"
  using series_mode_Nil_iff [of xs] by (cases "series_mode xs") (auto simp: getitem0_def)

lemma segment_insights_Inr_iff:
  "(\<exists>r. segment_insights df seg = Inr r) \<longleftrightarrow>
     ''Purchase_Amount'' \<in> set (columns seg) \<and> ''Product_Category'' \<in> set (columns seg)
     \<and> ''Purchase_Frequency'' \<in> set (columns seg)
     \<and> ''Purchase_Amount'' \<in> set (columns df) \<and> ''Purchase_Frequency'' \<in> set (columns df)
     \<and> dropna (map Product_Category (rows seg)) \<noteq> []"
  by (simp add: segment_insights_def and_then_def getitem_def getitem0_mode_cases)

lemma segment_insights_error: "segment_insights df seg = Inl e \<Longrightarrow> e = KeyError"
  by (auto simp: segment_insights_def and_then_def getitem_def getitem0_def
      split: sum.splits if_splits list.splits)

lemma user_segment_relaxed:
  "filter (exact_match p) (rows df) = [] \<Longrightarrow>
   user_segment df p = ([No_exact_match_warning], df\<lparr>rows := filter (income_match p) (rows df)\<rparr>)"
  by (simp add: user_segment_def)

lemma selectboxes_ok_columns:
  assumes "selectboxes_ok df"
  shows "''Product_Category'' \<in> set (columns df)"
  using assms
  by (auto simp: selectboxes_ok_def selectboxes_def selectbox_options_def and_then_def
      getitem_def split: sum.splits if_splits)

lemma get_my_insights_ok:
  assumes "selectboxes_ok df"
  shows "get_my_insights df p =
     \<lparr>warnings = fst (user_segment df p),
      result = segment_insights df (snd (user_segment df p))\<rparr>"
  using assms
  by (auto simp: get_my_insights_def selectboxes_ok_def split: sum.splits prod.splits)

lemma get_my_insights_Inr:
  assumes "result (get_my_insights df p) = Inr r"
  shows "segment_insights df (snd (user_segment df p)) = Inr r"
  using assms
  by (auto simp: get_my_insights_def split: sum.splits prod.splits)

text \<open>
  An income level that the box of line 231 offers as a text occurs in the table, so its
  income-only subset is not empty. (The box offers NaN alone when the column has only
  missing cells, and nothing when the table has no rows.)
\<close>

lemma offered_income_matches:
  assumes "selectbox_options df ''Income_Level'' Income_Level = Inr opts"
    and "Some (income_input p) \<in> set opts"
  shows "filter (income_match p) (rows df) \<noteq> []"
proof -
  from assms have "income_input p \<in> set (dropna (map Income_Level (rows df)))"
    by (auto simp: selectbox_options_def getitem_def split: if_splits)
  then obtain r where "r \<in> set (rows df)" "Income_Level r = Some (income_input p)"
    by (auto simp: in_set_dropna_map)
  then show ?thesis by (auto simp: filter_empty_conv income_match_def)
qed

subsection \<open>The cast of the amount column\<close>






section \<open>Claims\<close>

text \<open>
  Claim C1, as the code has it. For every table whose select boxes can be built and every
  profile, when no row matches the age, the income level and the channel together while
  some row matches the income level, the run takes the relaxed match and never a no-data
  outcome: the user is told that there is no exact match (the warning of line 243) and
  the segment is the income-only subset of the whole table. The statistics are those of
  this subset, and they are delivered exactly when the table has the amount and the
  frequency column and some row of the subset has a product category; otherwise the run
  ends in KeyError after the warning.
\<close>

theorem relaxed_match_used:
  assumes "selectboxes_ok df"
    and "filter (exact_match p) (rows df) = []"
    and "filter (income_match p) (rows df) \<noteq> []"
  shows "warnings (get_my_insights df p) = [No_exact_match_warning]
     \<and> snd (user_segment df p) = df\<lparr>rows := filter (income_match p) (rows df)\<rparr>
     \<and> ((\<exists>r. result (get_my_insights df p) = Inr r) \<longleftrightarrow>
          ''Purchase_Amount'' \<in> set (columns df) \<and> ''Purchase_Frequency'' \<in> set (columns df)
          \<and> dropna (map Product_Category (filter (income_match p) (rows df))) \<noteq> [])
     \<and> (\<forall>r. result (get_my_insights df p) = Inr r \<longrightarrow>
          avg_spending r = series_mean (map Purchase_Amount (filter (income_match p) (rows df)))
          \<and> getitem0 (series_mode (map Product_Category (filter (income_match p) (rows df))))
              = Inr (top_category r)
          \<and> avg_frequency r = series_mean (map Purchase_Frequency (filter (income_match p) (rows df))))"
proof -
  let ?seg = "df\<lparr>rows := filter (income_match p) (rows df)\<rparr>"
  from assms(1,2) have run: "get_my_insights df p =
      \<lparr>warnings = [No_exact_match_warning], result = segment_insights df ?seg\<rparr>"
    by (simp add: get_my_insights_ok user_segment_relaxed)
  from assms(1) have pc: "''Product_Category'' \<in> set (columns df)"
    by (rule selectboxes_ok_columns)
  have 1: "warnings (get_my_insights df p) = [No_exact_match_warning]"
    by (simp add: run)
  have 2: "snd (user_segment df p) = ?seg"
    by (simp add: user_segment_relaxed [OF assms(2)])
  have 3: "(\<exists>r. result (get_my_insights df p) = Inr r) \<longleftrightarrow>
          ''Purchase_Amount'' \<in> set (columns df) \<and> ''Purchase_Frequency'' \<in> set (columns df)
          \<and> dropna (map Product_Category (filter (income_match p) (rows df))) \<noteq> []"
    using pc by (auto simp: run segment_insights_Inr_iff)
  have 4: "avg_spending r = series_mean (map Purchase_Amount (filter (income_match p) (rows df)))
          \<and> getitem0 (series_mode (map Product_Category (filter (income_match p) (rows df))))
              = Inr (top_category r)
          \<and> avg_frequency r = series_mean (map Purchase_Frequency (filter (income_match p) (rows df)))"
    if "result (get_my_insights df p) = Inr r" for r
  proof -
    from that have "segment_insights df ?seg = Inr r" by (simp add: run)
    from segment_insights_Inr(1-3) [OF this] show ?thesis by simp
  qed
  from 1 2 3 4 show ?thesis by blast
qed

text \<open>
  The specification's scenario: nobody aged 30 with a high income bought online, three
  rows have a high income; the statistics are those of the three rows.
\<close>

theorem relaxed_match_used_witness:
  "selectboxes_ok four_shoppers
   \<and> filter (exact_match high_online_30) (rows four_shoppers) = []
   \<and> length (filter (income_match high_online_30) (rows four_shoppers)) = 3
   \<and> warnings (get_my_insights four_shoppers high_online_30) = [No_exact_match_warning]
   \<and> result (get_my_insights four_shoppers high_online_30) =
       Inr \<lparr>avg_spending = Num 60, top_category = ''Electronics'', avg_frequency = Num 4,
            overall_avg_spending = Num 50, overall_avg_frequency = Num (13 / 4),
            recommendation = High_value_frequent_shopper\<rparr>"
proof -
  have h1: "selectboxes_ok four_shoppers"
    by (simp add: fixture_defs insights_defs)
  have h2: "filter (exact_match high_online_30) (rows four_shoppers) = []"
    by (simp add: fixture_defs exact_match_def)
  have h3: "filter (income_match high_online_30) (rows four_shoppers) \<noteq> []"
    by (simp add: fixture_defs income_match_def)
  from relaxed_match_used [OF h1 h2 h3] show ?thesis
    by (simp add: fixture_defs insights_defs)
qed

text \<open>
  The claim as stated fails on a table without the \<^verbatim>\<open>Purchase_Frequency\<close> column: the
  income-only subset has three rows and the warning is issued, but line 248 raises
  KeyError and no statistics are delivered.
\<close>

theorem relaxed_match_counterexample:
  "selectboxes_ok no_frequency_column
   \<and> filter (exact_match high_online_30) (rows no_frequency_column) = []
   \<and> length (filter (income_match high_online_30) (rows no_frequency_column)) = 3
   \<and> warnings (get_my_insights no_frequency_column high_online_30) = [No_exact_match_warning]
   \<and> result (get_my_insights no_frequency_column high_online_30) = Inl KeyError"
  by (simp add: fixture_defs insights_defs)

text \<open>
  Claim C2, as the code has it. The script has no outcome for missing data. For every
  table whose select boxes can be built and every profile whose exact-match and
  income-only subsets are both empty, the only message is the warning that there is no
  exact match, and no statistics are shown: the lookup of the most frequent product
  category in the empty subset raises KeyError, which ends the run.
\<close>

theorem no_match_raises:
  assumes "selectboxes_ok df"
    and "filter (exact_match p) (rows df) = []"
    and "filter (income_match p) (rows df) = []"
  shows "get_my_insights df p = \<lparr>warnings = [No_exact_match_warning], result = Inl KeyError\<rparr>"
proof -
  let ?seg = "df\<lparr>rows := filter (income_match p) (rows df)\<rparr>"
  from assms(1,2) have run: "get_my_insights df p =
      \<lparr>warnings = [No_exact_match_warning], result = segment_insights df ?seg\<rparr>"
    by (simp add: get_my_insights_ok user_segment_relaxed)
  from assms(3) have "\<not> (\<exists>r. segment_insights df ?seg = Inr r)"
    by (simp add: segment_insights_Inr_iff)
  then obtain e where "segment_insights df ?seg = Inl e"
    by (cases "segment_insights df ?seg") auto
  with segment_insights_error [OF this] run show ?thesis by simp
qed

theorem no_match_raises_witness:
  "selectboxes_ok four_shoppers
   \<and> filter (exact_match medium_online_30) (rows four_shoppers) = []
   \<and> filter (income_match medium_online_30) (rows four_shoppers) = []
   \<and> get_my_insights four_shoppers medium_online_30 =
       \<lparr>warnings = [No_exact_match_warning], result = Inl KeyError\<rparr>"
proof -
  have h1: "selectboxes_ok four_shoppers"
    by (simp add: fixture_defs insights_defs)
  have h2: "filter (exact_match medium_online_30) (rows four_shoppers) = []"
    by (simp add: fixture_defs exact_match_def)
  have h3: "filter (income_match medium_online_30) (rows four_shoppers) = []"
    by (simp add: fixture_defs income_match_def)
  from no_match_raises [OF h1 h2 h3] h1 h2 h3 show ?thesis by simp
qed

text \<open>
  The claim as stated fails on a table without rows: both subsets are empty, and the run
  ends in KeyError instead of a message that the data are insufficient.
\<close>

theorem no_data_counterexample:
  "filter (exact_match high_online_30) (rows empty_table) = []
   \<and> filter (income_match high_online_30) (rows empty_table) = []
   \<and> warnings (get_my_insights empty_table high_online_30) = [No_exact_match_warning]
   \<and> result (get_my_insights empty_table high_online_30) = Inl KeyError"
  by (simp add: fixture_defs insights_defs)

text \<open>
  Claim C3. For every table and every selection the widgets can return, the filters
  retain exactly the rows whose value is in the allowed list of every attribute with a
  non-empty list, in their order; an empty list imposes no constraint, so the selection
  with four empty lists returns the table as it is.
\<close>

theorem filtered_df_retains:
  assumes "selection_readable df sel"
  shows "filtered_df df sel = Inr (df\<lparr>rows := filter (spec_retained sel) (rows df)\<rparr>)
     \<and> (selected_channel sel = [] \<and> selected_category sel = [] \<and> selected_gender sel = []
          \<and> selected_income sel = [] \<longrightarrow> filtered_df df sel = Inr df)"
  using filtered_df_rows [OF assms] by (auto simp: spec_retained_def)

theorem filtered_df_retains_witness:
  "selection_readable two_purchases online_only
   \<and> filtered_df two_purchases online_only =
       Inr (two_purchases\<lparr>rows := [purchase ''Online'' ''Electronics'' 100]\<rparr>)
   \<and> total_revenue (two_purchases\<lparr>rows := [purchase ''Online'' ''Electronics'' 100]\<rparr>) = Num 100
   \<and> selection_readable two_purchases nothing_selected
   \<and> filtered_df two_purchases nothing_selected = Inr two_purchases"
proof -
  have h1: "selection_readable two_purchases online_only"
    by (simp add: fixture_defs selection_readable_def)
  have h2: "selection_readable two_purchases nothing_selected"
    by (simp add: fixture_defs selection_readable_def)
  have kept: "filter (spec_retained online_only) (rows two_purchases) =
      [purchase ''Online'' ''Electronics'' 100]"
    by (simp add: fixture_defs spec_retained_def isin_def)
  have rev: "total_revenue (two_purchases\<lparr>rows := [purchase ''Online'' ''Electronics'' 100]\<rparr>) = Num 100"
    by (simp add: fixture_defs total_revenue_def series_sum_def)
  have none: "selected_channel nothing_selected = [] \<and> selected_category nothing_selected = []
      \<and> selected_gender nothing_selected = [] \<and> selected_income nothing_selected = []"
    by (simp add: nothing_selected_def)
  from filtered_df_retains [OF h1] kept
  have a: "filtered_df two_purchases online_only =
      Inr (two_purchases\<lparr>rows := [purchase ''Online'' ''Electronics'' 100]\<rparr>)"
    by simp
  from filtered_df_retains [OF h2] none
  have b: "filtered_df two_purchases nothing_selected = Inr two_purchases"
    by blast
  from a b h1 h2 rev show ?thesis by simp
qed

text \<open>
  Claim C4, as the code has it. On a table without rows, \<^verbatim>\<open>avg_purchase\<close> raises no
  fault; with the amount column present its value is NaN (the mean pandas gives for an
  empty column), and it is 0 only when the table has no amount column.
\<close>

theorem avg_purchase_empty:
  "avg_purchase \<lparr>columns = cs, rows = []\<rparr> =
     (if ''Purchase_Amount'' \<in> set cs then NaN else Num 0)"
  by (simp add: avg_purchase_def series_mean_def)

text \<open>The claim as stated fails: the empty table with an amount column gives NaN, not 0.\<close>

theorem avg_purchase_empty_counterexample:
  "''Purchase_Amount'' \<in> set (columns empty_table) \<and> rows empty_table = []
   \<and> avg_purchase empty_table = NaN \<and> avg_purchase empty_table \<noteq> Num 0"
  by (simp add: fixture_defs avg_purchase_def series_mean_def)




text \<open>
  Claim C6, as the code has it. The category shown is a most frequent product category
  of the segment (missing values do not count), and among several categories of the
  highest frequency it is the least one in the order of strings, since pandas returns the
  modes sorted; the order of the rows plays no part.
\<close>

theorem top_category_is_least_mode:
  assumes "result (get_my_insights df p) = Inr r"
    and "cats = map Product_Category (rows (snd (user_segment df p)))"
  shows "Some (top_category r) \<in> set cats
     \<and> (\<forall>v. count_list cats (Some v) \<le> count_list cats (Some (top_category r)))
     \<and> (\<forall>v. count_list cats (Some v) = count_list cats (Some (top_category r)) \<longrightarrow>
            top_category r \<le> v)"
proof -
  from assms(1) have "segment_insights df (snd (user_segment df p)) = Inr r"
    by (rule get_my_insights_Inr)
  from segment_insights_Inr(2) [OF this] assms(2)
  have "getitem0 (series_mode cats) = Inr (top_category r)" by simp
  from getitem0_mode [OF this] show ?thesis by blast
qed

theorem top_category_is_least_mode_witness:
  "result (get_my_insights four_shoppers high_online_30) =
     Inr \<lparr>avg_spending = Num 60, top_category = ''Electronics'', avg_frequency = Num 4,
          overall_avg_spending = Num 50, overall_avg_frequency = Num (13 / 4),
          recommendation = High_value_frequent_shopper\<rparr>
   \<and> map Product_Category (rows (snd (user_segment four_shoppers high_online_30))) =
       [Some ''Electronics'', Some ''Apparel'', Some ''Electronics'']
   \<and> Some ''Electronics'' \<in> set [Some ''Electronics'', Some ''Apparel'', Some ''Electronics'']
   \<and> count_list [Some ''Electronics'', Some ''Apparel'', Some ''Electronics''] (Some ''Apparel'')
       \<le> count_list [Some ''Electronics'', Some ''Apparel'', Some ''Electronics'']
            (Some ''Electronics'')"
proof -
  have h1: "result (get_my_insights four_shoppers high_online_30) =
     Inr \<lparr>avg_spending = Num 60, top_category = ''Electronics'', avg_frequency = Num 4,
          overall_avg_spending = Num 50, overall_avg_frequency = Num (13 / 4),
          recommendation = High_value_frequent_shopper\<rparr>"
    by (simp add: fixture_defs insights_defs)
  have h2: "[Some ''Electronics'', Some ''Apparel'', Some ''Electronics''] =
      map Product_Category (rows (snd (user_segment four_shoppers high_online_30)))"
    by (simp add: fixture_defs insights_defs)
  from top_category_is_least_mode [OF h1 h2] h1 h2 show ?thesis by simp
qed

text \<open>
  The claim as stated fails: of two categories that occur once each, the one shown is
  the least label, although the other one is met first in the segment's rows.
\<close>

theorem top_category_counterexample:
  "map Product_Category (rows (snd (user_segment two_tied_shoppers high_online_30))) =
     [Some ''Books'', Some ''Apparel'']
   \<and> map_sum id top_category (result (get_my_insights two_tied_shoppers high_online_30)) =
       Inr ''Apparel''"
  by (simp add: fixture_defs insights_defs)

text \<open>
  Claim C7. The recommendation is exactly one of four labels, decided in precedence order:
  both means above their baselines gives the high-value frequent shopper label; otherwise
  the amount alone above its baseline gives the premium label; otherwise the frequency
  alone gives the frequent shopper label; otherwise the value-seeking default. The four
  conditions exclude one another and cover every case.
\<close>

theorem rec_precedence:
  "(rec a f A F = High_value_frequent_shopper) = (float_gt a A \<and> float_gt f F)
   \<and> (rec a f A F = Premium_purchases) = (float_gt a A \<and> \<not> float_gt f F)
   \<and> (rec a f A F = Frequent_shopper) = (\<not> float_gt a A \<and> float_gt f F)
   \<and> (rec a f A F = Seasonal_deals) = (\<not> float_gt a A \<and> \<not> float_gt f F)"
  by (simp add: rec_def)







text \<open>
  Claim C10, as the code has it. The default selection of a filterable column is the
  list of its distinct values that are not missing. For a column that has at least one
  such value the list is not empty, and then every row with a missing value in that
  column is excluded from the filtered table, which therefore differs from the table. A
  column whose values are all missing has no options and filters nothing.
\<close>

theorem default_selection_excludes_null_rows:
  assumes "(name, field) \<in> set filter_columns"
    and "name \<in> set (columns df)"
    and "r \<in> set (rows df)"
    and "field r = None"
    and "\<exists>r'\<in>set (rows df). field r' \<noteq> None"
  shows "set (get_options df name field) = {v. \<exists>r'\<in>set (rows df). field r' = Some v}
     \<and> get_options df name field \<noteq> []
     \<and> (\<exists>d. filtered_df df (default_selection df) = Inr d
            \<and> r \<notin> set (rows d) \<and> rows d \<noteq> rows df)"
proof -
  let ?d = "df\<lparr>rows := filter (spec_retained (default_selection df)) (rows df)\<rparr>"
  have run: "filtered_df df (default_selection df) = Inr ?d"
    by (rule filtered_df_rows [OF default_selection_readable])
  from default_drops [OF assms(1,2,4,5)]
  have ne: "get_options df name field \<noteq> []" and out: "\<not> spec_retained (default_selection df) r"
    by simp_all
  from out have notin: "r \<notin> set (rows ?d)" by simp
  with assms(3) have "rows ?d \<noteq> rows df" by metis
  with run notin ne assms(2) show ?thesis
    by (simp add: set_get_options)
qed

theorem default_selection_excludes_null_rows_witness:
  "(''Gender'', Gender) \<in> set filter_columns
   \<and> ''Gender'' \<in> set (columns gender_partly_missing)
   \<and> purchase ''Store'' ''Apparel'' 50 \<in> set (rows gender_partly_missing)
   \<and> Gender (purchase ''Store'' ''Apparel'' 50) = None
   \<and> get_options gender_partly_missing ''Gender'' Gender = [''Female'']
   \<and> filtered_df gender_partly_missing (default_selection gender_partly_missing) =
       Inr (gender_partly_missing
             \<lparr>rows := [(purchase ''Online'' ''Electronics'' 100)\<lparr>Gender := Some ''Female''\<rparr>]\<rparr>)"
proof -
  have h1: "(''Gender'', Gender) \<in> set filter_columns"
    by (simp add: filter_columns_def)
  have h2: "''Gender'' \<in> set (columns gender_partly_missing)"
    by (simp add: fixture_defs)
  have h3: "purchase ''Store'' ''Apparel'' 50 \<in> set (rows gender_partly_missing)"
    by (simp add: fixture_defs)
  have h4: "Gender (purchase ''Store'' ''Apparel'' 50) = None"
    by (simp add: fixture_defs)
  have h5: "\<exists>r'\<in>set (rows gender_partly_missing). Gender r' \<noteq> None"
    by (simp add: fixture_defs)
  have opts: "get_options gender_partly_missing ''Gender'' Gender = [''Female'']"
    by (simp add: fixture_defs get_options_def)
  have run: "filtered_df gender_partly_missing (default_selection gender_partly_missing) =
       Inr (gender_partly_missing
             \<lparr>rows := [(purchase ''Online'' ''Electronics'' 100)\<lparr>Gender := Some ''Female''\<rparr>]\<rparr>)"
    by (simp add: fixture_defs default_selection_def get_options_def filtered_df_def
        and_then_def filter_isin_def isin_def)
  from default_selection_excludes_null_rows [OF h1 h2 h3 h4 h5] h1 h2 h3 h4 opts run
  show ?thesis by simp
qed

text \<open>
  The claim as stated fails where a column has no value at all: the only row has no
  gender, the gender filter has no options, and the default selection keeps the row.
\<close>

theorem default_selection_counterexample:
  "hd (rows gender_all_missing) \<in> set (rows gender_all_missing)
   \<and> Gender (hd (rows gender_all_missing)) = None
   \<and> default_selection gender_all_missing =
       \<lparr>selected_channel = [''Online''], selected_category = [''Electronics''],
        selected_gender = [], selected_income = []\<rparr>
   \<and> filtered_df gender_all_missing (default_selection gender_all_missing) =
       Inr gender_all_missing"
  by (simp add: fixture_defs default_selection_def get_options_def filtered_df_def
      and_then_def filter_isin_def isin_def)

end
